theory Spec2Isabelle
  imports Main
begin

unbundle bit_operations_syntax

section \<open>The CHIP16 execution core of \<^verbatim>\<open>cpu.py\<close>\<close>

text \<open>
  The class \<^verbatim>\<open>Cpu\<close> is embedded with explicit state passing. Python integers are
  unbounded, so every number is an \<^typ>\<open>int\<close>; \<^verbatim>\<open>>>\<close>, \<^verbatim>\<open><<\<close>, \<^verbatim>\<open>&\<close> and \<^verbatim>\<open>|\<close> are
  \<^const>\<open>drop_bit\<close>, \<^const>\<open>push_bit\<close>, \<open>AND\<close> and \<open>OR\<close> on \<^typ>\<open>int\<close>, which agree with
  Python on negative numbers too. A memory cell or register is \<^verbatim>\<open>None\<close> or an integer:
  an \<^typ>\<open>int option\<close>. Every exception the interpreter can raise in the modelled code
  is a value of \<open>error\<close>.
\<close>

subsection \<open>Exceptions\<close>

datatype error =
    TypeError
  | IndexError
  | KeyError "int option"
  | ValueError
  | JmpException string

definition bind :: "error + 'a \<Rightarrow> ('a \<Rightarrow> error + 'b) \<Rightarrow> error + 'b" where
  "bind m f = (case m of Inl e \<Rightarrow> Inl e | Inr v \<Rightarrow> f v)"

subsection \<open>Python lists of fixed length\<close>

text \<open>
  \<^verbatim>\<open>self.memory = [None] * (0xFFFF + 1)\<close> and \<^verbatim>\<open>self.r = [None] * (0xF + 1)\<close> are
  lists whose length never changes after \<^verbatim>\<open>reset\<close>: no code appends to or deletes from
  them. A list of length \<open>n\<close> is modelled by its cells, a function on \<^typ>\<open>nat\<close> of
  which only the arguments below \<open>n\<close> are used, together with the length written out at
  every access. Indexing follows Python: an index in \<open>[0, n)\<close> is taken as it is, an
  index in \<open>[-n, 0)\<close> counts from the end, anything else raises \<^verbatim>\<open>IndexError\<close>, and
  \<^verbatim>\<open>None\<close> used as an index or as an operand of an arithmetic operator raises
  \<^verbatim>\<open>TypeError\<close>.
\<close>

definition MEMORY_SIZE :: int where
  "MEMORY_SIZE = 0xFFFF + 1"

definition REGISTER_COUNT :: int where
  "REGISTER_COUNT = 0xF + 1"

definition list_index :: "int \<Rightarrow> int \<Rightarrow> error + nat" where
  "list_index n i =
     (if 0 \<le> i \<and> i < n then Inr (nat i)
      else if - n \<le> i \<and> i < 0 then Inr (nat (i + n))
      else Inl IndexError)"

definition list_get :: "int \<Rightarrow> (nat \<Rightarrow> 'a) \<Rightarrow> int \<Rightarrow> error + 'a" where
  "list_get n xs i = bind (list_index n i) (\<lambda>k. Inr (xs k))"

definition list_set :: "int \<Rightarrow> (nat \<Rightarrow> 'a) \<Rightarrow> int \<Rightarrow> 'a \<Rightarrow> error + (nat \<Rightarrow> 'a)" where
  "list_set n xs i v = bind (list_index n i) (\<lambda>k. Inr (xs(k := v)))"

definition as_int :: "int option \<Rightarrow> error + int" where
  "as_int v = (case v of None \<Rightarrow> Inl TypeError | Some k \<Rightarrow> Inr k)"

subsection \<open>Machine state\<close>

text \<open>
  The graphics unit, the sound unit and Python's \<^verbatim>\<open>random\<close> module are not part of
  \<^verbatim>\<open>cpu.py\<close>. Their states are the type parameters \<open>'g\<close>, \<open>'s\<close> and \<open>'r\<close>, and what each
  call or attribute assignment does to them is a parameter of the model, collected in
  the record \<open>env\<close>. The collaborators are constructed without a reference to the
  processor, so they cannot change its fields; their calls are taken to return.
\<close>

record ('g, 's, 'r) env =
  gpu_clear_fg :: "'g \<Rightarrow> 'g"
  gpu_clear_bg :: "'g \<Rightarrow> 'g"
  gpu_vblank :: "'g \<Rightarrow> bool \<times> 'g"
  gpu_set_bg :: "int \<Rightarrow> 'g \<Rightarrow> 'g"
  gpu_set_spritew :: "int \<Rightarrow> 'g \<Rightarrow> 'g"
  gpu_set_spriteh :: "int \<Rightarrow> 'g \<Rightarrow> 'g"
  gpu_drw_hhll :: "int \<Rightarrow> int option \<Rightarrow> int option \<Rightarrow> 'g \<Rightarrow> bool \<times> 'g"
  gpu_drw_rz :: "int \<Rightarrow> int option \<Rightarrow> int option \<Rightarrow> 'g \<Rightarrow> bool \<times> 'g"
  gpu_flip :: "bool \<Rightarrow> bool \<Rightarrow> 'g \<Rightarrow> 'g"
  spu_stop :: "'s \<Rightarrow> 's"
  spu_play500hz :: "int \<Rightarrow> 's \<Rightarrow> 's"
  spu_play1000hz :: "int \<Rightarrow> 's \<Rightarrow> 's"
  spu_play1500hz :: "int \<Rightarrow> 's \<Rightarrow> 's"
  spu_play_tone :: "int option \<Rightarrow> int \<Rightarrow> 's \<Rightarrow> 's"
  spu_setup :: "int \<Rightarrow> int \<Rightarrow> 's \<Rightarrow> 's"
  random_randint :: "int \<Rightarrow> int \<Rightarrow> 'r \<Rightarrow> int \<times> 'r"

text \<open>
  The fields of \<^verbatim>\<open>Cpu\<close>. The register list \<^verbatim>\<open>self.r\<close> is the field \<open>regs\<close>: a
  one-letter field name would take the letter away from every later statement.
\<close>

record ('g, 's, 'r) cpu =
  gpu :: 'g
  spu :: 's
  rng :: 'r
  current_cyles :: int
  pc :: int
  sp :: int
  regs :: "nat \<Rightarrow> int option"
  flag :: int
  memory :: "nat \<Rightarrow> int option"

definition RAM_ROM_START :: int where
  "RAM_ROM_START = 0x0000"

definition STACK_START :: int where
  "STACK_START = 0xFDF0"

definition reset :: "('g, 's, 'r) cpu \<Rightarrow> ('g, 's, 'r) cpu" where
  "reset s = s\<lparr>current_cyles := 0, pc := RAM_ROM_START, sp := STACK_START,
               regs := (\<lambda>_. None), flag := 0, memory := (\<lambda>_. None)\<rparr>"

text \<open>\<^verbatim>\<open>__init__\<close>: the two collaborators are constructed, then \<^verbatim>\<open>reset\<close> runs.\<close>

definition init :: "'g \<Rightarrow> 's \<Rightarrow> 'r \<Rightarrow> ('g, 's, 'r) cpu" where
  "init g u w = reset \<lparr>gpu = g, spu = u, rng = w, current_cyles = 0, pc = 0, sp = 0,
                       regs = (\<lambda>_. None), flag = 0, memory = (\<lambda>_. None)\<rparr>"

subsection \<open>Word access and two's complement\<close>

definition create_16bit_two_complement :: "int \<Rightarrow> int" where
  "create_16bit_two_complement v =
     (if v AND push_bit (16 - 1) 1 \<noteq> 0 then v - push_bit 16 1 else v)"

text \<open>
  \<^verbatim>\<open>write\<close> (\<open>cpu_write\<close> here: the name is a command of the proof language)
  stores the low cell first; when the second store raises, the first one has
  already happened, so the result carries the state reached together with the
  exception, if any.
\<close>

definition cpu_write :: "('g, 's, 'r) cpu \<Rightarrow> int \<Rightarrow> int \<Rightarrow> error option \<times> ('g, 's, 'r) cpu" where
  "cpu_write s address v =
     (case list_set MEMORY_SIZE (memory s) address (Some (v AND 0xFF)) of
        Inl e \<Rightarrow> (Some e, s)
      | Inr m1 \<Rightarrow>
          (case list_set MEMORY_SIZE m1 (address + 1) (Some (drop_bit 8 v)) of
             Inl e \<Rightarrow> (Some e, s\<lparr>memory := m1\<rparr>)
           | Inr m2 \<Rightarrow> (None, s\<lparr>memory := m2\<rparr>)))"

text \<open>
  \<^verbatim>\<open>read\<close> evaluates \<^verbatim>\<open>(self.memory[address + 1] << 8) | self.memory[address]\<close> from
  left to right. Its address may be a register's content, so it may be \<^verbatim>\<open>None\<close>.
\<close>

definition read :: "('g, 's, 'r) cpu \<Rightarrow> int option \<Rightarrow> error + int" where
  "read s address =
     bind (as_int address) (\<lambda>a.
     bind (list_get MEMORY_SIZE (memory s) (a + 1)) (\<lambda>c1.
     bind (as_int c1) (\<lambda>high.
     bind (list_get MEMORY_SIZE (memory s) a) (\<lambda>c0.
     bind (as_int c0) (\<lambda>low.
     Inr (create_16bit_two_complement (push_bit 8 high OR low)))))))"

subsection \<open>Decoder\<close>

text \<open>
  The dictionary built by \<^verbatim>\<open>create_params\<close> always has the same twelve keys, so it is
  a record. The keys \<^verbatim>\<open>'x'\<close>, \<^verbatim>\<open>'y'\<close>, \<^verbatim>\<open>'n'\<close> and \<^verbatim>\<open>'z'\<close> are the fields \<open>p_x\<close>,
  \<open>p_y\<close>, \<open>p_n\<close> and \<open>p_z\<close>. Only \<^verbatim>\<open>'op_code'\<close> can hold \<^verbatim>\<open>None\<close>: every other cell read
  has gone through an arithmetic operator by the time the dictionary is returned.
\<close>

record params =
  op_code :: "int option"
  p_y :: int
  p_x :: int
  p_n :: int
  p_z :: int
  ll :: int
  hh :: int
  hflip :: int
  vflip :: int
  hhll :: int
  vtsr :: int
  ad :: int

definition create_params :: "('g, 's, 'r) cpu \<Rightarrow> int \<Rightarrow> error + params" where
  "create_params s address =
     bind (list_get MEMORY_SIZE (memory s) address) (\<lambda>opc.
     bind (list_get MEMORY_SIZE (memory s) (address + 1)) (\<lambda>c1.
     bind (as_int c1) (\<lambda>b1.
     bind (list_get MEMORY_SIZE (memory s) (address + 2)) (\<lambda>c2.
     bind (as_int c2) (\<lambda>b2.
     bind (list_get MEMORY_SIZE (memory s) (address + 3)) (\<lambda>c3.
     bind (as_int c3) (\<lambda>b3.
     Inr \<lparr>op_code = opc,
          p_y = drop_bit 4 b1,
          p_x = b1 AND 15,
          p_n = b2 AND 15,
          p_z = b2 AND 15,
          ll = b2,
          hh = b3,
          hflip = drop_bit 1 b3,
          vflip = b3 AND 1,
          hhll = push_bit 8 b3 OR b2,
          vtsr = push_bit 8 b3 OR b2,
          ad = b1\<rparr>)))))))"

subsection \<open>Opcode handlers\<close>

text \<open>
  A handler is a closure over the processor. It gets the decoded fields and the state
  and gives back the state it leaves behind together with its outcome: the length it
  returns (\<open>Inr\<close>) or the exception it raises (\<open>Inl\<close>). Operands are evaluated in
  Python's order: the right-hand side of an assignment before its target, arguments
  from left to right.
\<close>

type_synonym ('g, 's, 'r) handler =
  "params \<Rightarrow> ('g, 's, 'r) cpu \<Rightarrow> (error + int) \<times> ('g, 's, 'r) cpu"

definition nop :: "('g, 's, 'r) handler" where
  "nop p s = (Inr 4, s)"

definition cls :: "('g, 's, 'r) env \<Rightarrow> ('g, 's, 'r) handler" where
  "cls env p s = (Inr 4, s\<lparr>gpu := gpu_clear_bg env (gpu_clear_fg env (gpu s))\<rparr>)"

definition vblank :: "('g, 's, 'r) env \<Rightarrow> ('g, 's, 'r) handler" where
  "vblank env p s =
     (case gpu_vblank env (gpu s) of
        (blanking, g) \<Rightarrow> if blanking then (Inr 4, s\<lparr>gpu := g\<rparr>) else (Inr 0, s\<lparr>gpu := g\<rparr>))"

definition bgc :: "('g, 's, 'r) env \<Rightarrow> ('g, 's, 'r) handler" where
  "bgc env p s = (Inr 4, s\<lparr>gpu := gpu_set_bg env (p_n p) (gpu s)\<rparr>)"

definition spr :: "('g, 's, 'r) env \<Rightarrow> ('g, 's, 'r) handler" where
  "spr env p s =
     (Inr 4, s\<lparr>gpu := gpu_set_spriteh env (hh p) (gpu_set_spritew env (ll p) (gpu s))\<rparr>)"

text \<open>\<^verbatim>\<open>carried << 6\<close> on a Python boolean is 64 for \<^verbatim>\<open>True\<close> and 0 for \<^verbatim>\<open>False\<close>.\<close>

definition drw_hhll :: "('g, 's, 'r) env \<Rightarrow> ('g, 's, 'r) handler" where
  "drw_hhll env p s =
     (case list_get REGISTER_COUNT (regs s) (p_x p) of
        Inl e \<Rightarrow> (Inl e, s)
      | Inr vx \<Rightarrow>
          (case list_get REGISTER_COUNT (regs s) (p_y p) of
             Inl e \<Rightarrow> (Inl e, s)
           | Inr vy \<Rightarrow>
               (case gpu_drw_hhll env (hhll p) vx vy (gpu s) of
                  (carried, g) \<Rightarrow>
                    (Inr 4, s\<lparr>gpu := g,
                               flag := flag s OR push_bit 6 (of_bool carried)\<rparr>))))"

definition drw_rz :: "('g, 's, 'r) env \<Rightarrow> ('g, 's, 'r) handler" where
  "drw_rz env p s =
     (case bind (list_get REGISTER_COUNT (regs s) (p_z p)) (read s) of
        Inl e \<Rightarrow> (Inl e, s)
      | Inr w \<Rightarrow>
          (case list_get REGISTER_COUNT (regs s) (p_x p) of
             Inl e \<Rightarrow> (Inl e, s)
           | Inr vx \<Rightarrow>
               (case list_get REGISTER_COUNT (regs s) (p_y p) of
                  Inl e \<Rightarrow> (Inl e, s)
                | Inr vy \<Rightarrow>
                    (case gpu_drw_rz env w vx vy (gpu s) of
                       (carried, g) \<Rightarrow>
                         (Inr 4, s\<lparr>gpu := g,
                                    flag := flag s OR push_bit 6 (of_bool carried)\<rparr>)))))"

text \<open>
  \<^verbatim>\<open>random.randint(0, b)\<close> raises \<^verbatim>\<open>ValueError\<close> on the empty range \<open>b < 0\<close>. The
  number is drawn before the register is stored.
\<close>

definition rnd :: "('g, 's, 'r) env \<Rightarrow> ('g, 's, 'r) handler" where
  "rnd env p s =
     (if hhll p < 0 then (Inl ValueError, s)
      else
        (case random_randint env 0 (hhll p) (rng s) of
           (v, w) \<Rightarrow>
             (case list_set REGISTER_COUNT (regs s) (p_x p) (Some v) of
                Inl e \<Rightarrow> (Inl e, s\<lparr>rng := w\<rparr>)
              | Inr rs \<Rightarrow> (Inr 4, s\<lparr>rng := w, regs := rs\<rparr>))))"

definition flip :: "('g, 's, 'r) env \<Rightarrow> ('g, 's, 'r) handler" where
  "flip env p s = (Inr 4, s\<lparr>gpu := gpu_flip env (hflip p = 1) (vflip p = 1) (gpu s)\<rparr>)"

definition snd0 :: "('g, 's, 'r) env \<Rightarrow> ('g, 's, 'r) handler" where
  "snd0 env p s = (Inr 4, s\<lparr>spu := spu_stop env (spu s)\<rparr>)"

definition snd1 :: "('g, 's, 'r) env \<Rightarrow> ('g, 's, 'r) handler" where
  "snd1 env p s = (Inr 4, s\<lparr>spu := spu_play500hz env (hhll p) (spu s)\<rparr>)"

definition snd2 :: "('g, 's, 'r) env \<Rightarrow> ('g, 's, 'r) handler" where
  "snd2 env p s = (Inr 4, s\<lparr>spu := spu_play1000hz env (hhll p) (spu s)\<rparr>)"

definition snd3 :: "('g, 's, 'r) env \<Rightarrow> ('g, 's, 'r) handler" where
  "snd3 env p s = (Inr 4, s\<lparr>spu := spu_play1500hz env (hhll p) (spu s)\<rparr>)"

definition snp :: "('g, 's, 'r) env \<Rightarrow> ('g, 's, 'r) handler" where
  "snp env p s =
     (case bind (list_get REGISTER_COUNT (regs s) (p_x p)) (\<lambda>vx.
           bind (as_int vx) (\<lambda>a. list_get MEMORY_SIZE (memory s) a)) of
        Inl e \<Rightarrow> (Inl e, s)
      | Inr c \<Rightarrow> (Inr 4, s\<lparr>spu := spu_play_tone env c (hhll p) (spu s)\<rparr>))"

definition sng :: "('g, 's, 'r) env \<Rightarrow> ('g, 's, 'r) handler" where
  "sng env p s = (Inr 4, s\<lparr>spu := spu_setup env (ad p) (vtsr p) (spu s)\<rparr>)"

definition jmp :: "('g, 's, 'r) handler" where
  "jmp p s = (Inl (JmpException ''JMP''), s\<lparr>pc := hhll p\<rparr>)"

definition ldi_rx :: "('g, 's, 'r) handler" where
  "ldi_rx p s =
     (case list_set REGISTER_COUNT (regs s) (p_x p) (Some (hhll p)) of
        Inl e \<Rightarrow> (Inl e, s)
      | Inr rs \<Rightarrow> (Inr 4, s\<lparr>regs := rs\<rparr>))"

definition ldi_sp :: "('g, 's, 'r) handler" where
  "ldi_sp p s = (Inr 4, s\<lparr>sp := hhll p\<rparr>)"

definition ldm_rx :: "('g, 's, 'r) handler" where
  "ldm_rx p s =
     (case bind (list_get MEMORY_SIZE (memory s) (hhll p)) (\<lambda>c.
           list_set REGISTER_COUNT (regs s) (p_x p) c) of
        Inl e \<Rightarrow> (Inl e, s)
      | Inr rs \<Rightarrow> (Inr 4, s\<lparr>regs := rs\<rparr>))"

definition ldm_rx_ry :: "('g, 's, 'r) handler" where
  "ldm_rx_ry p s =
     (case bind (list_get REGISTER_COUNT (regs s) (p_y p)) (\<lambda>vy.
           bind (as_int vy) (\<lambda>a.
           bind (list_get MEMORY_SIZE (memory s) a) (\<lambda>c.
           list_set REGISTER_COUNT (regs s) (p_x p) c))) of
        Inl e \<Rightarrow> (Inl e, s)
      | Inr rs \<Rightarrow> (Inr 4, s\<lparr>regs := rs\<rparr>))"

definition mov_rx_ry :: "('g, 's, 'r) handler" where
  "mov_rx_ry p s =
     (case bind (list_get REGISTER_COUNT (regs s) (p_y p)) (\<lambda>vy.
           bind (as_int vy) (\<lambda>a.
           bind (list_get MEMORY_SIZE (memory s) a) (\<lambda>c.
           list_set REGISTER_COUNT (regs s) (p_x p) c))) of
        Inl e \<Rightarrow> (Inl e, s)
      | Inr rs \<Rightarrow> (Inr 4, s\<lparr>regs := rs\<rparr>))"

definition stm_rx :: "('g, 's, 'r) handler" where
  "stm_rx p s =
     (case bind (list_get REGISTER_COUNT (regs s) (p_x p)) (\<lambda>vx.
           list_set MEMORY_SIZE (memory s) (hhll p) vx) of
        Inl e \<Rightarrow> (Inl e, s)
      | Inr m \<Rightarrow> (Inr 4, s\<lparr>memory := m\<rparr>))"

definition stm_rx_ry :: "('g, 's, 'r) handler" where
  "stm_rx_ry p s =
     (case bind (list_get REGISTER_COUNT (regs s) (p_x p)) (\<lambda>vx.
           bind (list_get REGISTER_COUNT (regs s) (p_y p)) (\<lambda>vy.
           bind (as_int vy) (\<lambda>a.
           list_set MEMORY_SIZE (memory s) a vx))) of
        Inl e \<Rightarrow> (Inl e, s)
      | Inr m \<Rightarrow> (Inr 4, s\<lparr>memory := m\<rparr>))"

subsection \<open>Dispatch table and step\<close>

record ('g, 's, 'r) instruction =
  Mnemonic :: string
  execute :: "('g, 's, 'r) handler"

definition instruction_table ::
  "('g, 's, 'r) env \<Rightarrow> int \<Rightarrow> ('g, 's, 'r) instruction option" where
  "instruction_table env =
     Map.empty
      (0x00 \<mapsto> \<lparr>Mnemonic = ''NOP'', execute = nop\<rparr>,
       0x01 \<mapsto> \<lparr>Mnemonic = ''CLS'', execute = cls env\<rparr>,
       0x02 \<mapsto> \<lparr>Mnemonic = ''VBLNK'', execute = vblank env\<rparr>,
       0x03 \<mapsto> \<lparr>Mnemonic = ''BGC N'', execute = bgc env\<rparr>,
       0x04 \<mapsto> \<lparr>Mnemonic = ''SPR HHLL'', execute = spr env\<rparr>,
       0x05 \<mapsto> \<lparr>Mnemonic = ''DRW RX, RY, HHLL'', execute = drw_hhll env\<rparr>,
       0x06 \<mapsto> \<lparr>Mnemonic = ''DRW RX, RY, RZ'', execute = drw_rz env\<rparr>,
       0x07 \<mapsto> \<lparr>Mnemonic = ''RND RX, HHLL'', execute = rnd env\<rparr>,
       0x08 \<mapsto> \<lparr>Mnemonic = ''FLIP 0, 0'', execute = flip env\<rparr>,
       0x09 \<mapsto> \<lparr>Mnemonic = ''SND0'', execute = snd0 env\<rparr>,
       0x0A \<mapsto> \<lparr>Mnemonic = ''SND1 HHLL'', execute = snd1 env\<rparr>,
       0x0B \<mapsto> \<lparr>Mnemonic = ''SND2 HHLL'', execute = snd2 env\<rparr>,
       0x0C \<mapsto> \<lparr>Mnemonic = ''SND3 HHLL'', execute = snd3 env\<rparr>,
       0x0D \<mapsto> \<lparr>Mnemonic = ''SNP RX, HHLL'', execute = snp env\<rparr>,
       0x0E \<mapsto> \<lparr>Mnemonic = ''SNG AD, VTSR'', execute = sng env\<rparr>,
       0x10 \<mapsto> \<lparr>Mnemonic = ''JMP HHLL'', execute = jmp\<rparr>,
       0x20 \<mapsto> \<lparr>Mnemonic = ''LDI RX, HHLL'', execute = ldi_rx\<rparr>,
       0x21 \<mapsto> \<lparr>Mnemonic = ''LDI SP, HHLL'', execute = ldi_sp\<rparr>,
       0x22 \<mapsto> \<lparr>Mnemonic = ''LDM RX, HHLL'', execute = ldm_rx\<rparr>,
       0x23 \<mapsto> \<lparr>Mnemonic = ''LDM RX, RY'', execute = ldm_rx_ry\<rparr>,
       0x24 \<mapsto> \<lparr>Mnemonic = ''MOV RX, RY'', execute = mov_rx_ry\<rparr>,
       0x30 \<mapsto> \<lparr>Mnemonic = ''STM RX, HHLL'', execute = stm_rx\<rparr>,
       0x31 \<mapsto> \<lparr>Mnemonic = ''STM RX, RY'', execute = stm_rx_ry\<rparr>)"

text \<open>
  \<^verbatim>\<open>self.__instruction_set[params['op_code']]\<close>: a key that is not in the dictionary,
  \<^verbatim>\<open>None\<close> included, raises \<^verbatim>\<open>KeyError\<close> with the key as its argument.
\<close>

definition lookup_instruction ::
  "('g, 's, 'r) env \<Rightarrow> int option \<Rightarrow> error + ('g, 's, 'r) instruction" where
  "lookup_instruction env key =
     (case key of
        None \<Rightarrow> Inl (KeyError None)
      | Some k \<Rightarrow>
          (case instruction_table env k of
             None \<Rightarrow> Inl (KeyError (Some k))
           | Some i \<Rightarrow> Inr i))"

text \<open>
  \<^verbatim>\<open>step\<close> gives the state the call leaves behind and the exception that escapes it,
  if any. The trace line sent to \<^verbatim>\<open>logging.info\<close> is built from fields that are all
  integers once \<^verbatim>\<open>create_params\<close> has returned; it changes no field and is left out.
  In \<^verbatim>\<open>self.pc += f(params)\<close> the old \<^verbatim>\<open>self.pc\<close> is loaded before \<^verbatim>\<open>f\<close> runs, so the
  sum uses the program counter from before the handler. A \<^verbatim>\<open>JmpException\<close> is
  swallowed; any other exception escapes before the cycle counter is touched.
\<close>

definition step ::
  "('g, 's, 'r) env \<Rightarrow> ('g, 's, 'r) cpu \<Rightarrow> error option \<times> ('g, 's, 'r) cpu" where
  "step env s =
     (case create_params s (pc s) of
        Inl e \<Rightarrow> (Some e, s)
      | Inr p \<Rightarrow>
          (case lookup_instruction env (op_code p) of
             Inl e \<Rightarrow> (Some e, s)
           | Inr current_instruction \<Rightarrow>
               (case execute current_instruction p s of
                  (Inr len, s') \<Rightarrow>
                    (None, s'\<lparr>pc := pc s + len, current_cyles := current_cyles s' + 1\<rparr>)
                | (Inl e, s') \<Rightarrow>
                    (case e of
                       JmpException v \<Rightarrow>
                         (None, s'\<lparr>current_cyles := current_cyles s' + 1\<rparr>)
                     | _ \<Rightarrow> (Some e, s')))))"

subsection \<open>Concrete machines\<close>

text \<open>
  Programs reach memory from outside the class (a ROM loader stores bytes into
  \<^verbatim>\<open>memory\<close>); \<open>load_bytes\<close> stores a list of bytes into consecutive cells. The
  collaborators of the concrete machines below are scripted: the graphics unit's state
  is the list of answers it will give to \<^verbatim>\<open>vblank\<close> and to the two draw calls, one
  answer per call and \<^verbatim>\<open>False\<close> when the script is used up; everything else does
  nothing, and \<^verbatim>\<open>randint(a, b)\<close> answers \<open>a\<close>.
\<close>

fun load_bytes :: "('g, 's, 'r) cpu \<Rightarrow> nat \<Rightarrow> int list \<Rightarrow> ('g, 's, 'r) cpu" where
  "load_bytes s a [] = s"
| "load_bytes s a (b # bs) = load_bytes (s\<lparr>memory := (memory s)(a \<mapsto> b)\<rparr>) (a + 1) bs"

definition next_answer :: "bool list \<Rightarrow> bool \<times> bool list" where
  "next_answer g = (case g of [] \<Rightarrow> (False, []) | b # bs \<Rightarrow> (b, bs))"

definition script_env :: "(bool list, unit, unit) env" where
  "script_env =
     \<lparr>gpu_clear_fg = (\<lambda>g. g),
      gpu_clear_bg = (\<lambda>g. g),
      gpu_vblank = next_answer,
      gpu_set_bg = (\<lambda>_ g. g),
      gpu_set_spritew = (\<lambda>_ g. g),
      gpu_set_spriteh = (\<lambda>_ g. g),
      gpu_drw_hhll = (\<lambda>_ _ _. next_answer),
      gpu_drw_rz = (\<lambda>_ _ _. next_answer),
      gpu_flip = (\<lambda>_ _ g. g),
      spu_stop = (\<lambda>u. u),
      spu_play500hz = (\<lambda>_ u. u),
      spu_play1000hz = (\<lambda>_ u. u),
      spu_play1500hz = (\<lambda>_ u. u),
      spu_play_tone = (\<lambda>_ _ u. u),
      spu_setup = (\<lambda>_ _ u. u),
      random_randint = (\<lambda>a _ w. (a, w))\<rparr>"

text \<open>The programs the concrete statements below run.\<close>

definition ldi_stm_program :: "(bool list, unit, unit) cpu" where
  "ldi_stm_program =
     load_bytes (init [] () ()) 0 [0x20, 0x00, 0x34, 0x12, 0x30, 0x00, 0x00, 0x20]"

definition ldi_stm_ry_program :: "(bool list, unit, unit) cpu" where
  "ldi_stm_ry_program =
     load_bytes (init [] () ()) 0
       [0x20, 0x00, 0x34, 0x12, 0x20, 0x01, 0x00, 0x20, 0x31, 0x10, 0x00, 0x00]"

definition ldm_program :: "(bool list, unit, unit) cpu" where
  "ldm_program =
     snd (cpu_write (load_bytes (init [] () ()) 0 [0x22, 0x01, 0x00, 0x20]) 0x2000 0x1234)"

definition ldm_ry_program :: "(bool list, unit, unit) cpu" where
  "ldm_ry_program =
     snd (cpu_write
       (load_bytes (init [] () ()) 0 [0x20, 0x02, 0x00, 0x20, 0x23, 0x21, 0x00, 0x00])
       0x2000 0x1234)"

definition jmp_program :: "(bool list, unit, unit) cpu" where
  "jmp_program =
     load_bytes (load_bytes (init [] () ()) 0 [0x10, 0x00, 0x00, 0x01])
       0x0100 [0x10, 0x00, 0x08, 0x00]"

definition two_draws_program :: "(bool list, unit, unit) cpu" where
  "two_draws_program =
     load_bytes (init [True, False] () ()) 0 [0x05, 0x00, 0x00, 0x00, 0x05, 0x00, 0x00, 0x00]"

definition draw_rz_program :: "(bool list, unit, unit) cpu" where
  "draw_rz_program =
     snd (cpu_write
       (load_bytes (init [True] () ()) 0 [0x20, 0x00, 0x10, 0x00, 0x06, 0x00, 0x00, 0x00])
       0x10 0x1234)"

subsection \<open>What a handler leaves alone\<close>

text \<open>
  A handler keeps the frame when it never touches the cycle counter and either leaves
  the flags word as it is or ORs 64 (bit 6, carry) into it.
\<close>

definition keeps_frame :: "('g, 's, 'r) handler \<Rightarrow> bool" where
  "keeps_frame h \<longleftrightarrow>
     (\<forall>p s. current_cyles (snd (h p s)) = current_cyles s \<and>
            (flag (snd (h p s)) = flag s \<or> flag (snd (h p s)) = flag s OR 64))"

section \<open>Properties\<close>

subsection \<open>Auxiliary facts\<close>

lemmas access_defs = list_get_def list_set_def list_index_def bind_def as_int_def
  MEMORY_SIZE_def REGISTER_COUNT_def

lemmas machine_defs = step_def create_params_def lookup_instruction_def
  instruction_table_def init_def reset_def RAM_ROM_START_def STACK_START_def
  script_env_def next_answer_def

lemma word_recombine: "push_bit 8 (drop_bit 8 v) OR (v AND 255) = (v::int)"
proof -
  have m: "(255::int) = mask 8" by (simp add: mask_eq_exp_minus_1)
  have "push_bit 8 (drop_bit 8 v) OR take_bit 8 v = v"
    by (rule bit_eqI) (auto simp add: bit_simps)
  then show ?thesis unfolding m take_bit_eq_mask .
qed

lemma sign_test: "(v AND 32768 \<noteq> 0) = bit (v::int) 15"
  using bit_iff_and_push_bit_not_eq_0 [of v 15] by simp

lemma bit_64_6: "bit (64::int) 6"
  using bit_push_bit_iff_int [of 6 1 6] by simp

lemma bit6_carried: "bit (f OR (if carried then 64 else 0)) 6 = (bit (f::int) 6 \<or> carried)"
  using bit_64_6 by (simp add: bit_or_iff)

lemma list_get_in_range:
  "0 \<le> i \<Longrightarrow> i < n \<Longrightarrow> list_get n xs i = Inr (xs (nat i))"
  by (simp add: list_get_def list_index_def bind_def)

lemma list_set_in_range:
  "0 \<le> i \<Longrightarrow> i < n \<Longrightarrow> list_set n xs i v = Inr (xs(nat i := v))"
  by (simp add: list_set_def list_index_def bind_def)

lemma create_params_decoded:
  assumes "0 \<le> a" "a \<le> 65532"
    and "memory s (nat (a + 1)) = Some b1"
    and "memory s (nat (a + 2)) = Some b2"
    and "memory s (nat (a + 3)) = Some b3"
  shows "create_params s a =
     Inr \<lparr>op_code = memory s (nat a), p_y = drop_bit 4 b1, p_x = b1 AND 15,
          p_n = b2 AND 15, p_z = b2 AND 15, ll = b2, hh = b3,
          hflip = drop_bit 1 b3, vflip = b3 AND 1,
          hhll = push_bit 8 b3 OR b2, vtsr = push_bit 8 b3 OR b2, ad = b1\<rparr>"
  using assms
  by (simp add: create_params_def list_get_in_range MEMORY_SIZE_def bind_def as_int_def)

lemma keeps_frame_plain:
  "keeps_frame nop" "keeps_frame (cls env)" "keeps_frame (vblank env)"
  "keeps_frame (bgc env)" "keeps_frame (spr env)" "keeps_frame (flip env)"
  "keeps_frame (snd0 env)" "keeps_frame (snd1 env)" "keeps_frame (snd2 env)"
  "keeps_frame (snd3 env)" "keeps_frame (sng env)" "keeps_frame jmp" "keeps_frame ldi_sp"
  by (simp_all add: keeps_frame_def nop_def cls_def vblank_def bgc_def spr_def flip_def
      snd0_def snd1_def snd2_def snd3_def sng_def jmp_def ldi_sp_def split: prod.splits)

lemma keeps_frame_access:
  "keeps_frame (rnd env)" "keeps_frame (snp env)" "keeps_frame ldi_rx" "keeps_frame ldm_rx"
  "keeps_frame ldm_rx_ry" "keeps_frame mov_rx_ry" "keeps_frame stm_rx"
  "keeps_frame stm_rx_ry"
  by (simp_all add: keeps_frame_def rnd_def snp_def ldi_rx_def ldm_rx_def ldm_rx_ry_def
      mov_rx_ry_def stm_rx_def stm_rx_ry_def split: prod.splits sum.splits)

lemma keeps_frame_draw: "keeps_frame (drw_hhll env)" "keeps_frame (drw_rz env)"
  by (auto simp add: keeps_frame_def drw_hhll_def drw_rz_def split: prod.splits sum.splits)

lemma table_keeps_frame:
  "instruction_table env k = Some i \<Longrightarrow> keeps_frame (execute i)"
  by (auto simp add: instruction_table_def keeps_frame_plain keeps_frame_access
      keeps_frame_draw split: if_splits)

text \<open>
  Whatever the instruction, a step that returns has counted one cycle, and a step,
  returning or not, has left the flags word alone or ORed 64 into it.
\<close>

lemma step_frame:
  "(fst (step env s) = None \<longrightarrow> current_cyles (snd (step env s)) = current_cyles s + 1) \<and>
   (flag (snd (step env s)) = flag s \<or> flag (snd (step env s)) = flag s OR 64)"
proof (cases "create_params s (pc s)")
  case (Inl e)
  then show ?thesis by (simp add: step_def)
next
  case (Inr p)
  show ?thesis
  proof (cases "lookup_instruction env (op_code p)")
    case (Inl e)
    with Inr show ?thesis by (simp add: step_def)
  next
    case i: (Inr i)
    then obtain k where "instruction_table env k = Some i"
      by (auto simp add: lookup_instruction_def split: option.splits)
    then have "keeps_frame (execute i)" by (rule table_keeps_frame)
    then have f: "current_cyles (snd (execute i p s)) = current_cyles s"
      "flag (snd (execute i p s)) = flag s \<or> flag (snd (execute i p s)) = flag s OR 64"
      by (simp_all add: keeps_frame_def)
    obtain out t where o: "execute i p s = (out, t)" by (cases "execute i p s")
    with f have "current_cyles t = current_cyles s" "flag t = flag s \<or> flag t = flag s OR 64"
      by simp_all
    with Inr i o show ?thesis
      by (auto simp add: step_def split: sum.splits error.splits)
  qed
qed

subsection \<open>The jump instruction\<close>

lemma jmp_step:
  assumes "create_params s (pc s) = Inr p" and "op_code p = Some 0x10"
  shows "step env s = (None, s\<lparr>pc := hhll p, current_cyles := current_cyles s + 1\<rparr>)"
  using assms by (simp add: step_def lookup_instruction_def instruction_table_def jmp_def)

lemma decode_jmp_at_zero:
  assumes "pc s = 0"
    and "memory s 0 = Some 0x10" and "memory s 1 = Some 0x00"
    and "memory s 2 = Some 0x34" and "memory s 3 = Some 0x12"
  shows "create_params s (pc s) =
     Inr \<lparr>op_code = Some 0x10, p_y = 0, p_x = 0, p_n = 4, p_z = 4, ll = 0x34, hh = 0x12,
          hflip = 9, vflip = 0, hhll = 0x1234, vtsr = 0x1234, ad = 0\<rparr>"
proof -
  have c: "memory s (nat (0 + 1)) = Some 0" "memory s (nat (0 + 2)) = Some 0x34"
    "memory s (nat (0 + 3)) = Some 0x12"
    using assms by simp_all
  show ?thesis
    using create_params_decoded [OF _ _ c] assms(1,2) by simp
qed

text \<open>
  C1. JMP contract. In every machine state whose slot at the program counter decodes
  with opcode \<open>0x10\<close>, wherever the program counter stands: the dispatch table's entry
  for \<open>0x10\<close> is the handler \<^verbatim>\<open>jmp\<close>, the handler assigns \<open>pc = hhll\<close> and raises
  \<^verbatim>\<open>JmpException\<close> instead of returning a length, and one \<^verbatim>\<open>step\<close> returns normally
  with the program counter at \<open>hhll\<close> (no length is added to it), the cycle counter one
  higher and nothing else changed. In particular, when memory holds the bytes
  \<open>0x10, 0x00, 0x34, 0x12\<close> from address 0 on and the program counter is 0, the program
  counter after one step is \<open>0x1234\<close>, not \<open>0x0004\<close>.
\<close>

theorem jmp_contract:
  "(\<exists>i. instruction_table env 0x10 = Some i \<and> execute i = jmp) \<and>
   (\<forall>p. create_params s (pc s) = Inr p \<and> op_code p = Some 0x10 \<longrightarrow>
        jmp p s = (Inl (JmpException ''JMP''), s\<lparr>pc := hhll p\<rparr>) \<and>
        step env s = (None, s\<lparr>pc := hhll p, current_cyles := current_cyles s + 1\<rparr>) \<and>
        pc (snd (step env s)) = hhll p) \<and>
   (pc s = 0 \<and> memory s 0 = Some 0x10 \<and> memory s 1 = Some 0x00 \<and>
    memory s 2 = Some 0x34 \<and> memory s 3 = Some 0x12 \<longrightarrow>
        step env s = (None, s\<lparr>pc := 0x1234, current_cyles := current_cyles s + 1\<rparr>) \<and>
        pc (snd (step env s)) = 0x1234 \<and> pc (snd (step env s)) \<noteq> 0x0004)"
proof (intro conjI allI impI)
  show "\<exists>i. instruction_table env 0x10 = Some i \<and> execute i = jmp"
    by (simp add: instruction_table_def)
next
  fix p
  assume a: "create_params s (pc s) = Inr p \<and> op_code p = Some 0x10"
  show "jmp p s = (Inl (JmpException ''JMP''), s\<lparr>pc := hhll p\<rparr>)"
    by (simp add: jmp_def)
  show "step env s = (None, s\<lparr>pc := hhll p, current_cyles := current_cyles s + 1\<rparr>)"
    using a by (simp add: jmp_step)
  then show "pc (snd (step env s)) = hhll p" by simp
next
  assume a: "pc s = 0 \<and> memory s 0 = Some 0x10 \<and> memory s 1 = Some 0x00 \<and>
    memory s 2 = Some 0x34 \<and> memory s 3 = Some 0x12"
  then have d: "create_params s (pc s) =
     Inr \<lparr>op_code = Some 0x10, p_y = 0, p_x = 0, p_n = 4, p_z = 4, ll = 0x34, hh = 0x12,
          hflip = 9, vflip = 0, hhll = 0x1234, vtsr = 0x1234, ad = 0\<rparr>"
    by (intro decode_jmp_at_zero) simp_all
  show st: "step env s = (None, s\<lparr>pc := 0x1234, current_cyles := current_cyles s + 1\<rparr>)"
    using jmp_step [OF d] by simp
  then show "pc (snd (step env s)) = 0x1234" "pc (snd (step env s)) \<noteq> 0x0004"
    by simp_all
qed

theorem jmp_contract_witness:
  "step script_env (load_bytes (init [] () ()) 0 [0x10, 0x00, 0x34, 0x12]) =
     (None, (load_bytes (init [] () ()) 0 [0x10, 0x00, 0x34, 0x12])
              \<lparr>pc := 0x1234, current_cyles := 1\<rparr>) \<and>
   pc (snd (step script_env jmp_program)) = 0x0100 \<and>
   step script_env (snd (step script_env jmp_program)) =
     (None, (snd (step script_env jmp_program))\<lparr>pc := 0x0008, current_cyles := 2\<rparr>)"
proof -
  have d: "pc (snd (step script_env jmp_program)) = 0x0100"
    "current_cyles (snd (step script_env jmp_program)) = 1"
    "create_params (snd (step script_env jmp_program)) 0x0100 =
       Inr \<lparr>op_code = Some 0x10, p_y = 0, p_x = 0, p_n = 8, p_z = 8, ll = 0x08, hh = 0x00,
            hflip = 0, vflip = 0, hhll = 0x0008, vtsr = 0x0008, ad = 0\<rparr>"
    by (simp_all add: jmp_program_def machine_defs access_defs jmp_def)
  show ?thesis
    using jmp_contract [where s = "load_bytes (init [] () ()) 0 [0x10, 0x00, 0x34, 0x12]"
        and env = script_env]
      jmp_contract [where s = "snd (step script_env jmp_program)" and env = script_env]
    by (elim conjE allE [where x = "\<lparr>op_code = Some 0x10, p_y = 0, p_x = 0, p_n = 8, p_z = 8,
          ll = 0x08, hh = 0x00, hflip = 0, vflip = 0, hhll = 0x0008, vtsr = 0x0008, ad = 0\<rparr>"])
      (simp add: d init_def reset_def RAM_ROM_START_def)
qed

subsection \<open>The decoder\<close>

text \<open>
  C2 as stated fails: \<^verbatim>\<open>create_params\<close> is not total. On a machine where only the
  opcode cell 0 has been written, decoding at 0 raises \<^verbatim>\<open>TypeError\<close> (the unset cell 1
  meets \<^verbatim>\<open>>>\<close>); with the top three cells written, decoding at \<open>0xFFFD\<close> raises
  \<^verbatim>\<open>IndexError\<close> (cell \<open>0x10000\<close> does not exist).
\<close>

theorem decoder_not_total:
  "create_params (load_bytes (init ([]::bool list) () ()) 0 [0x00]) 0 = Inl TypeError \<and>
   create_params (load_bytes (init ([]::bool list) () ()) 0xFFFD [0x00, 0x00, 0x00]) 0xFFFD
     = Inl IndexError"
  by (simp add: create_params_def list_get_def list_index_def bind_def as_int_def
      MEMORY_SIZE_def init_def reset_def)

text \<open>
  C2, amended. For an address \<open>a\<close> in \<open>[0, 65535]\<close>: when \<open>a \<le> 65532\<close> and the three
  cells \<open>a + 1\<close>, \<open>a + 2\<close>, \<open>a + 3\<close> hold integers, \<^verbatim>\<open>create_params(a)\<close> returns the
  decoded field set (the opcode cell \<open>a\<close> is passed on as it is, unset or not); when
  \<open>a > 65532\<close> or one of the three cells is unset, it raises \<^verbatim>\<open>TypeError\<close> or
  \<^verbatim>\<open>IndexError\<close>.
\<close>

theorem create_params_on_populated_slot:
  assumes "0 \<le> a" "a \<le> 65535"
  shows "(\<forall>b1 b2 b3.
            a \<le> 65532 \<and> memory s (nat (a + 1)) = Some b1 \<and> memory s (nat (a + 2)) = Some b2
              \<and> memory s (nat (a + 3)) = Some b3 \<longrightarrow>
            create_params s a =
              Inr \<lparr>op_code = memory s (nat a), p_y = drop_bit 4 b1, p_x = b1 AND 15,
                   p_n = b2 AND 15, p_z = b2 AND 15, ll = b2, hh = b3,
                   hflip = drop_bit 1 b3, vflip = b3 AND 1,
                   hhll = push_bit 8 b3 OR b2, vtsr = push_bit 8 b3 OR b2, ad = b1\<rparr>) \<and>
         (65532 < a \<or> memory s (nat (a + 1)) = None \<or> memory s (nat (a + 2)) = None
              \<or> memory s (nat (a + 3)) = None \<longrightarrow>
            create_params s a = Inl TypeError \<or> create_params s a = Inl IndexError)"
proof (intro conjI allI impI)
  fix b1 b2 b3
  assume "a \<le> 65532 \<and> memory s (nat (a + 1)) = Some b1 \<and> memory s (nat (a + 2)) = Some b2
              \<and> memory s (nat (a + 3)) = Some b3"
  then show "create_params s a =
              Inr \<lparr>op_code = memory s (nat a), p_y = drop_bit 4 b1, p_x = b1 AND 15,
                   p_n = b2 AND 15, p_z = b2 AND 15, ll = b2, hh = b3,
                   hflip = drop_bit 1 b3, vflip = b3 AND 1,
                   hhll = push_bit 8 b3 OR b2, vtsr = push_bit 8 b3 OR b2, ad = b1\<rparr>"
    using create_params_decoded [of a s b1 b2 b3] assms(1) by simp
next
  assume f: "65532 < a \<or> memory s (nat (a + 1)) = None \<or> memory s (nat (a + 2)) = None
              \<or> memory s (nat (a + 3)) = None"
  have g: "\<And>k. 0 \<le> k \<Longrightarrow> list_get MEMORY_SIZE (memory s) (a + k) =
     (if a + k < 65536 then Inr (memory s (nat (a + k))) else Inl IndexError)"
    using assms(1) by (simp add: list_get_def list_index_def bind_def MEMORY_SIZE_def)
  have g0: "list_get MEMORY_SIZE (memory s) a = Inr (memory s (nat a))"
    using assms by (simp add: list_get_in_range MEMORY_SIZE_def)
  show "create_params s a = Inl TypeError \<or> create_params s a = Inl IndexError"
    using f
    by (auto simp add: create_params_def g g0 bind_def as_int_def split: option.splits)
qed

theorem create_params_on_populated_slot_witness:
  "create_params (load_bytes (init ([]::bool list) () ()) 0 [0x10, 0x00, 0x34, 0x12]) 0 =
     Inr \<lparr>op_code = Some 0x10, p_y = 0, p_x = 0, p_n = 4, p_z = 4, ll = 0x34, hh = 0x12,
          hflip = 9, vflip = 0, hhll = 0x1234, vtsr = 0x1234, ad = 0\<rparr> \<and>
   (create_params (load_bytes (init ([]::bool list) () ()) 0 [0x10]) 0 = Inl TypeError \<or>
    create_params (load_bytes (init ([]::bool list) () ()) 0 [0x10]) 0 = Inl IndexError)"
  using create_params_on_populated_slot
      [where a = 0 and s = "load_bytes (init ([]::bool list) () ()) 0 [0x10, 0x00, 0x34, 0x12]"]
    create_params_on_populated_slot
      [where a = 0 and s = "load_bytes (init ([]::bool list) () ()) 0 [0x10]"]
  by (simp add: init_def reset_def)

subsection \<open>Stores and loads of the opcode handlers\<close>

text \<open>
  C3, the code at the failing input. After \<^verbatim>\<open>LDI r0, 0x1234\<close> and
  \<^verbatim>\<open>STM r0, 0x2000\<close> on a fresh machine, cell \<open>0x2000\<close> holds the whole register value
  \<open>0x1234\<close> (not its low byte \<open>0x34\<close>), cell \<open>0x2001\<close> is still unset (not \<open>0x12\<close>),
  and \<^verbatim>\<open>read(0x2000)\<close> raises \<^verbatim>\<open>TypeError\<close>. \<^verbatim>\<open>STM r0, r1\<close> with \<open>r1 = 0x2000\<close>
  leaves the same two cells. Each handler writes one cell, not two.
\<close>

theorem stm_stores_one_cell:
  "fst (step script_env (snd (step script_env ldi_stm_program))) = None \<and>
   memory (snd (step script_env (snd (step script_env ldi_stm_program)))) 0x2000 = Some 0x1234 \<and>
   memory (snd (step script_env (snd (step script_env ldi_stm_program)))) 0x2001 = None \<and>
   read (snd (step script_env (snd (step script_env ldi_stm_program)))) (Some 0x2000)
     = Inl TypeError \<and>
   memory (snd (step script_env (snd (step script_env (snd (step script_env
      ldi_stm_ry_program)))))) 0x2000 = Some 0x1234 \<and>
   memory (snd (step script_env (snd (step script_env (snd (step script_env
      ldi_stm_ry_program)))))) 0x2001 = None"
  by (simp add: ldi_stm_program_def ldi_stm_ry_program_def machine_defs access_defs
      ldi_rx_def stm_rx_def stm_rx_ry_def read_def)

text \<open>
  C4, the code at the failing input. With the word \<open>0x1234\<close> written at \<open>0x2000\<close> by
  \<^verbatim>\<open>write\<close> (so that \<^verbatim>\<open>read(0x2000)\<close> is \<open>0x1234\<close>), \<^verbatim>\<open>LDM r1, 0x2000\<close> leaves
  \<open>0x34\<close> in register 1, the content of the single cell \<open>0x2000\<close>; so does
  \<^verbatim>\<open>LDM r1, r2\<close> after \<^verbatim>\<open>LDI r2, 0x2000\<close>.
\<close>

theorem ldm_loads_one_cell:
  "read ldm_program (Some 0x2000) = Inr 0x1234 \<and>
   fst (step script_env ldm_program) = None \<and>
   regs (snd (step script_env ldm_program)) 1 = Some 0x34 \<and>
   read ldm_ry_program (Some 0x2000) = Inr 0x1234 \<and>
   fst (step script_env (snd (step script_env ldm_ry_program))) = None \<and>
   regs (snd (step script_env (snd (step script_env ldm_ry_program)))) 1 = Some 0x34"
  by (simp add: ldm_program_def ldm_ry_program_def machine_defs access_defs cpu_write_def
      read_def create_16bit_two_complement_def ldi_rx_def ldm_rx_def ldm_rx_ry_def)

subsection \<open>Dispatch failure\<close>

text \<open>
  C5 as stated fails. An opcode byte \<open>0xFF\<close> at address 0 and the same byte at address
  \<open>0x100\<close> end the step with the very same exception, \<^verbatim>\<open>KeyError(255)\<close>: the failure
  carries the opcode and no address. And when the operand cells of the slot are unset,
  the step ends in the decoder's \<^verbatim>\<open>TypeError\<close>, which carries neither.
\<close>

theorem dispatch_failure_lacks_address:
  "step script_env (load_bytes (init [] () ()) 0 [0xFF, 0x00, 0x00, 0x00]) =
     (Some (KeyError (Some 0xFF)), load_bytes (init [] () ()) 0 [0xFF, 0x00, 0x00, 0x00]) \<and>
   step script_env ((load_bytes (init [] () ()) 0x100 [0xFF, 0x00, 0x00, 0x00])\<lparr>pc := 0x100\<rparr>) =
     (Some (KeyError (Some 0xFF)),
      (load_bytes (init [] () ()) 0x100 [0xFF, 0x00, 0x00, 0x00])\<lparr>pc := 0x100\<rparr>) \<and>
   fst (step script_env (load_bytes (init [] () ()) 0 [0xFF])) = Some TypeError"
  by (simp add: machine_defs access_defs)

text \<open>
  C5, amended. In every machine state where decoding at the program counter succeeds
  and the decoded opcode (an unset opcode cell included) has no entry in the dispatch
  table, \<^verbatim>\<open>step\<close> ends with \<^verbatim>\<open>KeyError\<close> carrying the opcode, and the program counter
  and every other field of the machine are as before the step.
\<close>

theorem dispatch_failure:
  assumes "create_params s (pc s) = Inr p"
    and "op_code p = None \<or> (\<exists>k. op_code p = Some k \<and> instruction_table env k = None)"
  shows "step env s = (Some (KeyError (op_code p)), s)"
  using assms by (auto simp add: step_def lookup_instruction_def)

theorem dispatch_failure_witness:
  "step script_env (load_bytes (init [] () ()) 0 [0xFF, 0x00, 0x00, 0x00]) =
     (Some (KeyError (Some 0xFF)), load_bytes (init [] () ()) 0 [0xFF, 0x00, 0x00, 0x00]) \<and>
   step script_env (load_bytes (init [] () ()) 1 [0x00, 0x00, 0x00]) =
     (Some (KeyError None), load_bytes (init [] () ()) 1 [0x00, 0x00, 0x00])"
  using dispatch_failure [where env = script_env
      and s = "load_bytes (init [] () ()) 0 [0xFF, 0x00, 0x00, 0x00]"
      and p = "\<lparr>op_code = Some 0xFF, p_y = 0, p_x = 0, p_n = 0, p_z = 0, ll = 0, hh = 0,
                 hflip = 0, vflip = 0, hhll = 0, vtsr = 0, ad = 0\<rparr>"]
    dispatch_failure [where env = script_env
      and s = "load_bytes (init [] () ()) 1 [0x00, 0x00, 0x00]"
      and p = "\<lparr>op_code = None, p_y = 0, p_x = 0, p_n = 0, p_z = 0, ll = 0, hh = 0,
                 hflip = 0, vflip = 0, hhll = 0, vtsr = 0, ad = 0\<rparr>"]
  by (simp add: create_params_def instruction_table_def init_def reset_def RAM_ROM_START_def
      access_defs)

subsection \<open>Word write/read round trip\<close>

text \<open>
  C6. For every address \<open>a\<close> in \<open>[0, 65533]\<close> and every value \<open>v\<close> in \<open>[0, 65535]\<close>,
  \<^verbatim>\<open>write(a, v)\<close> returns without an exception and a following \<^verbatim>\<open>read(a)\<close> returns the
  signed reading of \<open>v\<close>: \<open>v - 65536\<close> when bit 15 of \<open>v\<close> is set, \<open>v\<close> otherwise.
\<close>

theorem write_read_round_trip:
  assumes "0 \<le> a" "a \<le> 65533" "0 \<le> v" "v \<le> 65535"
  shows "fst (cpu_write s a v) = None \<and>
         read (snd (cpu_write s a v)) (Some a) = Inr (if bit v 15 then v - 65536 else v)"
proof -
  have i0: "list_index MEMORY_SIZE a = Inr (nat a)"
    using assms by (simp add: list_index_def MEMORY_SIZE_def)
  have i1: "list_index MEMORY_SIZE (a + 1) = Inr (nat (a + 1))"
    using assms by (simp add: list_index_def MEMORY_SIZE_def)
  have ne: "nat (a + 1) \<noteq> nat a" using assms by simp
  have w: "cpu_write s a v =
      (None, s\<lparr>memory := (memory s)(nat a := Some (v AND 255), nat (a + 1) := Some (drop_bit 8 v))\<rparr>)"
    by (simp add: cpu_write_def list_set_def bind_def i0 i1)
  show ?thesis
    using ne by (simp add: w read_def list_get_def bind_def as_int_def i0 i1
        create_16bit_two_complement_def word_recombine sign_test)
qed

theorem write_read_round_trip_witness:
  "fst (cpu_write (init ([]::bool list) () ()) 0x2000 0xFFFE) = None \<and>
   read (snd (cpu_write (init ([]::bool list) () ()) 0x2000 0xFFFE)) (Some 0x2000) = Inr (- 2)"
  using write_read_round_trip
    [where a = "0x2000" and v = "0xFFFE" and s = "init ([]::bool list) () ()"]
  by (simp add: bit_iff_odd)

subsection \<open>The draw instructions and the carry bit\<close>

text \<open>
  C7 as stated fails. Two \<^verbatim>\<open>DRW\<close> instructions in a row, the first colliding and the
  second not: the second draw's collision result is \<^verbatim>\<open>False\<close>, the step returns, and
  bit 6 of the flags word is still set after it.
\<close>

theorem carry_stays_after_clean_draw:
  "fst (step script_env two_draws_program) = None \<and>
   pc (snd (step script_env two_draws_program)) = 4 \<and>
   fst (gpu_drw_hhll script_env 0 None None (gpu (snd (step script_env two_draws_program))))
     = False \<and>
   fst (step script_env (snd (step script_env two_draws_program))) = None \<and>
   bit (flag (snd (step script_env (snd (step script_env two_draws_program))))) 6"
  using bit_64_6
  by (simp add: two_draws_program_def machine_defs access_defs drw_hhll_def)

text \<open>
  C7, amended. When either draw opcode (\<open>0x05\<close>, or \<open>0x06\<close> with the sprite address read
  as a word from memory at \<open>r[z]\<close>) is decoded at the program counter and its register
  operands can be read, the step returns and the flags word afterwards is the old flags
  word ORed with 64 if the graphics unit reported a collision and with 0 if not: bit 6
  after the draw is the OR of bit 6 before it and the collision result. So bit 6 equals
  the collision result when it was clear before the draw.
\<close>

theorem draw_ors_collision_into_carry:
  assumes "create_params s (pc s) = Inr p"
    and "list_get REGISTER_COUNT (regs s) (p_x p) = Inr vx"
    and "list_get REGISTER_COUNT (regs s) (p_y p) = Inr vy"
  shows "(op_code p = Some 0x05 \<and> gpu_drw_hhll env (hhll p) vx vy (gpu s) = (carried, g) \<longrightarrow>
            fst (step env s) = None \<and>
            flag (snd (step env s)) = flag s OR (if carried then 64 else 0) \<and>
            bit (flag (snd (step env s))) 6 = (bit (flag s) 6 \<or> carried)) \<and>
         (op_code p = Some 0x06 \<and>
          bind (list_get REGISTER_COUNT (regs s) (p_z p)) (read s) = Inr w \<and>
          gpu_drw_rz env w vx vy (gpu s) = (carried, g) \<longrightarrow>
            fst (step env s) = None \<and>
            flag (snd (step env s)) = flag s OR (if carried then 64 else 0) \<and>
            bit (flag (snd (step env s))) 6 = (bit (flag s) 6 \<or> carried))"
proof (intro conjI impI)
  assume a: "op_code p = Some 0x05 \<and> gpu_drw_hhll env (hhll p) vx vy (gpu s) = (carried, g)"
  have "step env s = (None, s\<lparr>gpu := g, flag := flag s OR (if carried then 64 else 0),
      pc := pc s + 4, current_cyles := current_cyles s + 1\<rparr>)"
    using assms a
    by (simp add: step_def lookup_instruction_def instruction_table_def drw_hhll_def)
  then show "fst (step env s) = None"
    "flag (snd (step env s)) = flag s OR (if carried then 64 else 0)"
    "bit (flag (snd (step env s))) 6 = (bit (flag s) 6 \<or> carried)"
    by (simp_all add: bit6_carried)
next
  assume a: "op_code p = Some 0x06 \<and>
          bind (list_get REGISTER_COUNT (regs s) (p_z p)) (read s) = Inr w \<and>
          gpu_drw_rz env w vx vy (gpu s) = (carried, g)"
  have "step env s = (None, s\<lparr>gpu := g, flag := flag s OR (if carried then 64 else 0),
      pc := pc s + 4, current_cyles := current_cyles s + 1\<rparr>)"
    using assms a
    by (simp add: step_def lookup_instruction_def instruction_table_def drw_rz_def)
  then show "fst (step env s) = None"
    "flag (snd (step env s)) = flag s OR (if carried then 64 else 0)"
    "bit (flag (snd (step env s))) 6 = (bit (flag s) 6 \<or> carried)"
    by (simp_all add: bit6_carried)
qed

theorem draw_ors_collision_into_carry_witness:
  "fst (step script_env two_draws_program) = None \<and>
   flag (snd (step script_env two_draws_program)) = 64 \<and>
   fst (step script_env (snd (step script_env draw_rz_program))) = None \<and>
   flag (snd (step script_env (snd (step script_env draw_rz_program)))) = 64"
  using draw_ors_collision_into_carry [where env = script_env and s = two_draws_program
      and p = "\<lparr>op_code = Some 0x05, p_y = 0, p_x = 0, p_n = 0, p_z = 0, ll = 0, hh = 0,
                 hflip = 0, vflip = 0, hhll = 0, vtsr = 0, ad = 0\<rparr>"
      and vx = None and vy = None and carried = True and g = "[False]" and w = 0]
    draw_ors_collision_into_carry [where env = script_env
      and s = "snd (step script_env draw_rz_program)"
      and p = "\<lparr>op_code = Some 0x06, p_y = 0, p_x = 0, p_n = 0, p_z = 0, ll = 0, hh = 0,
                 hflip = 0, vflip = 0, hhll = 0, vtsr = 0, ad = 0\<rparr>"
      and vx = "Some 0x10" and vy = "Some 0x10" and carried = True and g = "[]"
      and w = "0x1234"]
  by (simp add: two_draws_program_def draw_rz_program_def machine_defs access_defs
      cpu_write_def read_def create_16bit_two_complement_def ldi_rx_def)

subsection \<open>Waiting for the vertical blank\<close>

text \<open>
  C8. When the instruction decoded at the program counter is \<^verbatim>\<open>VBLNK\<close> (opcode
  \<open>0x02\<close>), one \<^verbatim>\<open>step\<close> returns normally; the program counter is unchanged if the
  graphics unit reports not-blanking and 4 higher if it reports vblank; the cycle
  counter is exactly one higher either way, as it is after every step that returns.
\<close>

theorem vblnk_busy_poll:
  assumes "create_params s (pc s) = Inr p" and "op_code p = Some 0x02"
    and "gpu_vblank env (gpu s) = (blanking, g)"
  shows "fst (step env s) = None \<and>
         gpu (snd (step env s)) = g \<and>
         pc (snd (step env s)) = (if blanking then pc s + 4 else pc s) \<and>
         current_cyles (snd (step env s)) = current_cyles s + 1 \<and>
         (\<forall>t. fst (step env t) = None \<longrightarrow>
            current_cyles (snd (step env t)) = current_cyles t + 1)"
proof -
  have "step env s =
    (None, s\<lparr>gpu := g, pc := pc s + (if blanking then 4 else 0),
             current_cyles := current_cyles s + 1\<rparr>)"
    using assms by (simp add: step_def lookup_instruction_def instruction_table_def vblank_def)
  moreover have "\<forall>t. fst (step env t) = None \<longrightarrow>
            current_cyles (snd (step env t)) = current_cyles t + 1"
    using step_frame by blast
  ultimately show ?thesis by simp
qed

theorem vblnk_busy_poll_witness:
  "fst (step script_env (load_bytes (init [False] () ()) 0 [0x02, 0x00, 0x00, 0x00])) = None \<and>
   pc (snd (step script_env (load_bytes (init [False] () ()) 0 [0x02, 0x00, 0x00, 0x00]))) = 0 \<and>
   current_cyles (snd (step script_env
     (load_bytes (init [False] () ()) 0 [0x02, 0x00, 0x00, 0x00]))) = 1 \<and>
   pc (snd (step script_env (load_bytes (init [True] () ()) 0 [0x02, 0x00, 0x00, 0x00]))) = 4 \<and>
   current_cyles (snd (step script_env
     (load_bytes (init [True] () ()) 0 [0x02, 0x00, 0x00, 0x00]))) = 1"
  using vblnk_busy_poll [where env = script_env
      and s = "load_bytes (init [False] () ()) 0 [0x02, 0x00, 0x00, 0x00]"
      and p = "\<lparr>op_code = Some 0x02, p_y = 0, p_x = 0, p_n = 0, p_z = 0, ll = 0, hh = 0,
                 hflip = 0, vflip = 0, hhll = 0, vtsr = 0, ad = 0\<rparr>"
      and blanking = False and g = "[]"]
    vblnk_busy_poll [where env = script_env
      and s = "load_bytes (init [True] () ()) 0 [0x02, 0x00, 0x00, 0x00]"
      and p = "\<lparr>op_code = Some 0x02, p_y = 0, p_x = 0, p_n = 0, p_z = 0, ll = 0, hh = 0,
                 hflip = 0, vflip = 0, hhll = 0, vtsr = 0, ad = 0\<rparr>"
      and blanking = True and g = "[]"]
  by (simp add: create_params_def init_def reset_def RAM_ROM_START_def script_env_def
      next_answer_def access_defs)

subsection \<open>MOV and LDM by register\<close>

text \<open>
  C9. The dispatch table has an entry for \<open>0x24\<close> (\<^verbatim>\<open>MOV rx, ry\<close>) and one for \<open>0x23\<close>
  (\<^verbatim>\<open>LDM rx, ry\<close>), and for every machine state and every decoded field set their
  handlers leave the same state with the same outcome. Both load the memory cell at
  address \<open>r[y]\<close> into register \<open>x\<close> and return length 4, when the register indices and
  the address are in range.
\<close>

theorem mov_same_as_ldm:
  "(\<exists>i j. instruction_table env 0x24 = Some i \<and> instruction_table env 0x23 = Some j \<and>
          execute i = mov_rx_ry \<and> execute j = ldm_rx_ry \<and> execute i p s = execute j p s) \<and>
   mov_rx_ry p s = ldm_rx_ry p s \<and>
   (\<forall>a. 0 \<le> p_x p \<and> p_x p < 16 \<and> 0 \<le> p_y p \<and> p_y p < 16 \<and>
        regs s (nat (p_y p)) = Some a \<and> 0 \<le> a \<and> a < 65536 \<longrightarrow>
        mov_rx_ry p s = (Inr 4, s\<lparr>regs := (regs s)(nat (p_x p) := memory s (nat a))\<rparr>))"
  by (simp add: instruction_table_def mov_rx_ry_def ldm_rx_ry_def list_get_in_range
      list_set_in_range REGISTER_COUNT_def MEMORY_SIZE_def bind_def as_int_def)

theorem mov_same_as_ldm_witness:
  "mov_rx_ry \<lparr>op_code = Some 0x24, p_y = 2, p_x = 1, p_n = 0, p_z = 0, ll = 0, hh = 0,
              hflip = 0, vflip = 0, hhll = 0, vtsr = 0, ad = 0x21\<rparr>
     (snd (step script_env ldm_ry_program)) =
   (Inr 4, (snd (step script_env ldm_ry_program))
      \<lparr>regs := (regs (snd (step script_env ldm_ry_program)))(1 := Some 0x34)\<rparr>)"
proof -
  have r: "regs (snd (step script_env ldm_ry_program)) 2 = Some 0x2000"
    "memory (snd (step script_env ldm_ry_program)) 0x2000 = Some 0x34"
    by (simp_all add: ldm_ry_program_def machine_defs access_defs cpu_write_def ldi_rx_def)
  show ?thesis
    using mov_same_as_ldm [where env = script_env and s = "snd (step script_env ldm_ry_program)"
        and p = "\<lparr>op_code = Some 0x24, p_y = 2, p_x = 1, p_n = 0, p_z = 0, ll = 0, hh = 0,
              hflip = 0, vflip = 0, hhll = 0, vtsr = 0, ad = 0x21\<rparr>"]
    by (elim conjE allE [where x = "0x2000"]) (simp add: r)
qed

subsection \<open>Flags are never cleared by a step\<close>

text \<open>
  C10. For every machine state, whatever the opcode at the program counter, every bit
  set in the flags word before a \<^verbatim>\<open>step\<close> is set after it: the step leaves the flags
  word as it is or ORs 64 into it (the two draw handlers; no other handler writes the
  flags). So a step never brings a non-zero flags word to 0; \<^verbatim>\<open>reset\<close> does.
\<close>

theorem flags_sticky:
  "(\<forall>n. bit (flag s) n \<longrightarrow> bit (flag (snd (step env s))) n) \<and>
   (flag (snd (step env s)) = flag s \<or> flag (snd (step env s)) = flag s OR 64) \<and>
   (flag s \<noteq> 0 \<longrightarrow> flag (snd (step env s)) \<noteq> 0) \<and>
   flag (reset s) = 0"
proof -
  have d: "flag (snd (step env s)) = flag s \<or> flag (snd (step env s)) = flag s OR 64"
    using step_frame [of env s] by simp
  then have b: "\<forall>n. bit (flag s) n \<longrightarrow> bit (flag (snd (step env s))) n"
    by (auto simp add: bit_or_iff)
  have "flag s \<noteq> 0 \<longrightarrow> flag (snd (step env s)) \<noteq> 0"
    using d by (auto simp add: or_eq_0_iff)
  with d b show ?thesis by (simp add: reset_def)
qed

theorem flags_sticky_witness:
  "bit (flag (snd (step script_env two_draws_program))) 6 \<and>
   bit (flag (snd (step script_env (snd (step script_env two_draws_program))))) 6 \<and>
   flag (snd (step script_env (snd (step script_env two_draws_program)))) \<noteq> 0 \<and>
   flag (reset (snd (step script_env two_draws_program))) = 0"
proof -
  have f: "flag (snd (step script_env two_draws_program)) = 64"
    by (simp add: two_draws_program_def machine_defs access_defs drw_hhll_def)
  show ?thesis
    using flags_sticky [where env = script_env and s = "snd (step script_env two_draws_program)"]
    by (auto simp add: f bit_64_6)
qed

end
